theory Spec2Isabelle
  imports Complex_Main
begin

section \<open>Property-list values\<close>

text \<open>
  The values \<^verbatim>\<open>plistlib\<close> hands to \<^verbatim>\<open>usb-list.py\<close>: dictionaries with string keys,
  lists, and the scalars of the format. A dictionary is an association list read
  through \<open>map_of\<close>; a string is a list of characters, one per code point. A float is
  kept by the exact value it denotes, which is all that \<^verbatim>\<open>==\<close> and truth testing
  look at.
\<close>

datatype pyfloat = Finite rat | PosInf | NegInf | NaN

datatype plval =
    PDict "(string \<times> plval) list"
  | PList "plval list"
  | PStr string
  | PInt int
  | PBool bool
  | PReal pyfloat
  | PBytes "nat list"
  | PDate string
  | PUid nat

datatype py_error = TypeError

text \<open>
  What \<^verbatim>\<open>print\<close> receives: the pieces of an f-string, either literal text or a value
  handed to Python's \<^verbatim>\<open>format\<close>. One \<open>frag list\<close> is one call of \<^verbatim>\<open>print\<close>.
\<close>

datatype frag = Lit string | Fmt plval

type_synonym outcome = "frag list list \<times> (py_error + unit)"

subsection \<open>Built-in operations of the language\<close>

fun as_dict :: "plval \<Rightarrow> (string \<times> plval) list option" where
  "as_dict (PDict d) = Some d"
| "as_dict v = None"

fun is_list :: "plval \<Rightarrow> bool" where
  "is_list (PList xs) = True"
| "is_list v = False"

text \<open>\<^verbatim>\<open>d.get(k, default)\<close>\<close>

definition get_or :: "(string \<times> plval) list \<Rightarrow> string \<Rightarrow> plval \<Rightarrow> plval" where
  "get_or d k dflt = (case map_of d k of None \<Rightarrow> dflt | Some v \<Rightarrow> v)"

text \<open>Truth value of an object, as \<^verbatim>\<open>if x:\<close> tests it.\<close>

fun truthy :: "plval \<Rightarrow> bool" where
  "truthy (PDict d) = (d \<noteq> [])"
| "truthy (PList xs) = (xs \<noteq> [])"
| "truthy (PStr s) = (s \<noteq> [])"
| "truthy (PInt i) = (i \<noteq> 0)"
| "truthy (PBool b) = b"
| "truthy (PReal f) = (f \<noteq> Finite 0)"
| "truthy (PBytes bs) = (bs \<noteq> [])"
| "truthy (PDate s) = True"
| "truthy (PUid n) = True"

text \<open>\<^verbatim>\<open>x == 10\<close>: an int or a float of that value; \<^verbatim>\<open>True\<close> is 1.\<close>

fun eq_10 :: "plval \<Rightarrow> bool" where
  "eq_10 (PInt i) = (i = 10)"
| "eq_10 (PReal f) = (f = Finite 10)"
| "eq_10 v = False"

text \<open>
  What a \<^verbatim>\<open>for\<close> loop draws from a value: the elements of a list, the keys of a
  dictionary, the characters of a string, the bytes of a bytes object. Any other value
  raises \<^verbatim>\<open>TypeError\<close>.
\<close>

fun py_iter :: "plval \<Rightarrow> py_error + plval list" where
  "py_iter (PList xs) = Inr xs"
| "py_iter (PDict d) = Inr (map PStr (remdups (map fst d)))"
| "py_iter (PStr s) = Inr (map (\<lambda>c. PStr [c]) s)"
| "py_iter (PBytes bs) = Inr (map (\<lambda>b. PInt (int b)) bs)"
| "py_iter v = Inl TypeError"

fun py_len :: "plval \<Rightarrow> py_error + nat" where
  "py_len (PList xs) = Inr (length xs)"
| "py_len (PDict d) = Inr (length (remdups (map fst d)))"
| "py_len (PStr s) = Inr (length s)"
| "py_len (PBytes bs) = Inr (length bs)"
| "py_len v = Inl TypeError"

text \<open>The text of \<^verbatim>\<open>type(x)\<close> inside an f-string.\<close>

fun type_str :: "plval \<Rightarrow> string" where
  "type_str (PDict d) = ''<class 'dict'>''"
| "type_str (PList xs) = ''<class 'list'>''"
| "type_str (PStr s) = ''<class 'str'>''"
| "type_str (PInt i) = ''<class 'int'>''"
| "type_str (PBool b) = ''<class 'bool'>''"
| "type_str (PReal f) = ''<class 'float'>''"
| "type_str (PBytes bs) = ''<class 'bytes'>''"
| "type_str (PDate s) = ''<class 'datetime.datetime'>''"
| "type_str (PUid n) = ''<class 'plistlib.UID'>''"

definition num :: "nat \<Rightarrow> frag" where
  "num n = Fmt (PInt (int n))"

definition newline :: char where
  "newline = CHR 0x0A"

section \<open>Resolving an interface name to a TTY device\<close>

text \<open>Lines 74 to 80: the loop over the grandchildren.\<close>

fun scan_grandchildren :: "plval list \<Rightarrow> plval option" where
  "scan_grandchildren [] = None"
| "scan_grandchildren (gc # gcs) =
     (case as_dict gc of
        None \<Rightarrow> scan_grandchildren gcs
      | Some g \<Rightarrow>
          (case map_of g ''IOTTYDevice'' of
             None \<Rightarrow> scan_grandchildren gcs
           | Some tty_device \<Rightarrow>
               if truthy tty_device then Some tty_device else scan_grandchildren gcs))"

text \<open>Lines 69 to 80: the loop over the children.\<close>

fun scan_children :: "plval list \<Rightarrow> py_error + plval option" where
  "scan_children [] = Inr None"
| "scan_children (child # children) =
     (case as_dict child of
        None \<Rightarrow> scan_children children
      | Some c \<Rightarrow>
          (case py_iter (get_or c ''IORegistryEntryChildren'' (PList [])) of
             Inl e \<Rightarrow> Inl e
           | Inr grandchildren \<Rightarrow>
               (case scan_grandchildren grandchildren of
                  Some tty_device \<Rightarrow> Inr (Some tty_device)
                | None \<Rightarrow> scan_children children)))"

text \<open>Lines 68 to 80: what is done with an interface that passed both tests.\<close>

definition search_interface :: "(string \<times> plval) list \<Rightarrow> py_error + plval option" where
  "search_interface interface =
     (case py_iter (get_or interface ''IORegistryEntryChildren'' (PList [])) of
        Inl e \<Rightarrow> Inl e
      | Inr children \<Rightarrow> scan_children children)"

text \<open>Line 67: \<^verbatim>\<open>interface.get('bInterfaceClass') == 10\<close>; a missing key gives \<^verbatim>\<open>None\<close>.\<close>

definition class_is_10 :: "(string \<times> plval) list \<Rightarrow> bool" where
  "class_is_10 interface =
     (case map_of interface ''bInterfaceClass'' of None \<Rightarrow> False | Some v \<Rightarrow> eq_10 v)"

text \<open>Lines 62 to 64: the name test, with the empty string for a missing key.\<close>

definition name_is :: "(string \<times> plval) list \<Rightarrow> string \<Rightarrow> bool" where
  "name_is interface interface_name =
     (get_or interface ''IORegistryEntryName'' (PStr '''') = PStr interface_name)"

text \<open>Lines 58 to 81: the loop over the interfaces.\<close>

fun scan_interfaces :: "plval list \<Rightarrow> string \<Rightarrow> py_error + plval option" where
  "scan_interfaces [] interface_name = Inr None"
| "scan_interfaces (x # xs) interface_name =
     (case as_dict x of
        None \<Rightarrow> scan_interfaces xs interface_name
      | Some interface \<Rightarrow>
          if \<not> name_is interface interface_name then scan_interfaces xs interface_name
          else if class_is_10 interface then
            (case search_interface interface of
               Inl e \<Rightarrow> Inl e
             | Inr (Some tty_device) \<Rightarrow> Inr (Some tty_device)
             | Inr None \<Rightarrow> scan_interfaces xs interface_name)
          else scan_interfaces xs interface_name)"

definition expected_list :: "frag list" where
  "expected_list = [Lit ''Error: Expected a list at the top level'']"

text \<open>
  The result is what was printed, and either the exception raised or the value
  returned, \<open>None\<close> for Python's \<^verbatim>\<open>None\<close>.
\<close>

fun find_tty_by_interface_name ::
  "plval \<Rightarrow> string \<Rightarrow> frag list list \<times> (py_error + plval option)" where
  "find_tty_by_interface_name (PList xs) interface_name = ([], scan_interfaces xs interface_name)"
| "find_tty_by_interface_name pl interface_name = ([expected_list], Inr None)"

section \<open>The full dump\<close>

definition emit :: "frag list list \<Rightarrow> frag list list \<times> (py_error + 'a) \<Rightarrow> frag list list \<times> (py_error + 'a)" where
  "emit ls r = (ls @ fst r, snd r)"

text \<open>Lines 147 to 156: the loop over the grandchildren, \<open>k\<close> counting from 0.\<close>

fun dump_grandchildren :: "nat \<Rightarrow> plval list \<Rightarrow> frag list list" where
  "dump_grandchildren k [] = []"
| "dump_grandchildren k (gc # gcs) =
     (case as_dict gc of
        None \<Rightarrow> dump_grandchildren (Suc k) gcs
      | Some g \<Rightarrow>
          (let gc_name = get_or g ''IORegistryEntryName'' (PStr ''Unknown'');
               with_tty = (\<lambda>tty_device.
                 [Lit ''    - #'', num (k + 1), Lit '': '', Fmt gc_name,
                  Lit '' (TTY: '', Fmt tty_device, Lit '')'']);
               without = [Lit ''    - #'', num (k + 1), Lit '': '', Fmt gc_name]
           in (case map_of g ''IOTTYDevice'' of
                 None \<Rightarrow> without
               | Some tty_device \<Rightarrow> if truthy tty_device then with_tty tty_device else without)
              # dump_grandchildren (Suc k) gcs))"

text \<open>Lines 134 to 156: the loop over the children, \<open>j\<close> counting from 0.\<close>

fun dump_children :: "nat \<Rightarrow> plval list \<Rightarrow> outcome" where
  "dump_children j [] = ([], Inr ())"
| "dump_children j (child # children) =
     (case as_dict child of
        None \<Rightarrow>
          emit [[Lit ''  Child #'', num (j + 1), Lit '' is not a dictionary'']]
            (dump_children (Suc j) children)
      | Some c \<Rightarrow>
          (let child_name = get_or c ''IORegistryEntryName'' (PStr ''Unknown'');
               child_class = get_or c ''IOClass'' (PStr ''Unknown'');
               grandchildren = get_or c ''IORegistryEntryChildren'' (PList [])
           in emit [[Lit ''  - Child #'', num (j + 1), Lit '': '', Fmt child_name,
                     Lit '' (Class: '', Fmt child_class, Lit '')'']]
                (if truthy grandchildren then
                   (case py_len grandchildren of
                      Inl e \<Rightarrow> ([], Inl e)
                    | Inr n \<Rightarrow>
                        emit [[Lit ''    Grandchildren ('', num n, Lit ''):'']]
                          (case py_iter grandchildren of
                             Inl e \<Rightarrow> ([], Inl e)
                           | Inr gcs \<Rightarrow>
                               emit (dump_grandchildren 0 gcs)
                                 (dump_children (Suc j) children)))
                 else dump_children (Suc j) children)))"

text \<open>Lines 109 to 128: the fields of one interface.\<close>

definition interface_fields :: "(string \<times> plval) list \<Rightarrow> frag list list" where
  "interface_fields interface =
     [[Lit ''Name: '', Fmt (get_or interface ''IORegistryEntryName'' (PStr ''Unknown''))],
      [Lit ''Class: '', Fmt (get_or interface ''bInterfaceClass'' (PStr ''Unknown''))],
      [Lit ''SubClass: '', Fmt (get_or interface ''bInterfaceSubClass'' (PStr ''Unknown''))],
      [Lit ''Protocol: '', Fmt (get_or interface ''bInterfaceProtocol'' (PStr ''Unknown''))]]
     @ (case map_of interface ''USB Product Name'' of
          None \<Rightarrow> [] | Some v \<Rightarrow> [[Lit ''Product: '', Fmt v]])
     @ (case map_of interface ''USB Vendor Name'' of
          None \<Rightarrow> [] | Some v \<Rightarrow> [[Lit ''Vendor: '', Fmt v]])
     @ (case map_of interface ''USB Serial Number'' of
          None \<Rightarrow> [] | Some v \<Rightarrow> [[Lit ''Serial: '', Fmt v]])
     @ [[Lit ''Vendor ID: '', Fmt (get_or interface ''idVendor'' (PStr ''Unknown''))],
        [Lit ''Product ID: '', Fmt (get_or interface ''idProduct'' (PStr ''Unknown''))],
        [Lit ''Location ID: '', Fmt (get_or interface ''locationID'' (PStr ''Unknown''))]]"

text \<open>Lines 131 to 156: the children of one interface.\<close>

definition interface_children :: "(string \<times> plval) list \<Rightarrow> outcome" where
  "interface_children interface =
     (let children = get_or interface ''IORegistryEntryChildren'' (PList [])
      in if truthy children then
           (case py_len children of
              Inl e \<Rightarrow> ([], Inl e)
            | Inr n \<Rightarrow>
                emit [[Lit (newline # ''  Children (''), num n, Lit ''):'']]
                  (case py_iter children of
                     Inl e \<Rightarrow> ([], Inl e)
                   | Inr cs \<Rightarrow> dump_children 0 cs))
         else ([], Inr ()))"

text \<open>Line 103: the report of an element that is not a dictionary.\<close>

definition not_a_dictionary :: "nat \<Rightarrow> plval \<Rightarrow> frag list" where
  "not_a_dictionary i x =
     [Lit (newline # ''Interface #''), num (i + 1),
      Lit '' is not a dictionary, it's a '', Lit (type_str x)]"

text \<open>Lines 101 to 156: the loop over the interfaces, \<open>i\<close> counting from 0.\<close>

fun dump_interfaces :: "nat \<Rightarrow> plval list \<Rightarrow> outcome" where
  "dump_interfaces i [] = ([], Inr ())"
| "dump_interfaces i (x # xs) =
     (case as_dict x of
        None \<Rightarrow> emit [not_a_dictionary i x] (dump_interfaces (Suc i) xs)
      | Some interface \<Rightarrow>
          emit ([Lit (newline # ''--- USB Interface #''), num (i + 1), Lit '' ---'']
                # interface_fields interface)
            (case interface_children interface of
               (out, Inl e) \<Rightarrow> (out, Inl e)
             | (out, Inr u) \<Rightarrow> emit out (dump_interfaces (Suc i) xs)))"

text \<open>
  \<^verbatim>\<open>extract_usb_info(pl, interface_name=None)\<close>: the second argument is \<open>None\<close> when it
  is left out.
\<close>

fun extract_usb_info :: "plval \<Rightarrow> string option \<Rightarrow> outcome" where
  "extract_usb_info (PList xs) interface_name =
     (case interface_name of
        Some n \<Rightarrow>
          if n \<noteq> [] then
            (case find_tty_by_interface_name (PList xs) n of
               (out, Inl e) \<Rightarrow> (out, Inl e)
             | (out, Inr None) \<Rightarrow>
                 (out @ [[Lit ''No TTY device found for interface: '', Fmt (PStr n)]], Inr ())
             | (out, Inr (Some tty_device)) \<Rightarrow>
                 if truthy tty_device then
                   (out @ [[Lit ''TTY device for '', Fmt (PStr n), Lit '': '', Fmt tty_device]],
                    Inr ())
                 else
                   (out @ [[Lit ''No TTY device found for interface: '', Fmt (PStr n)]], Inr ()))
          else
            emit [[Lit ''Found '', num (length xs), Lit '' USB interfaces'']]
              (dump_interfaces 0 xs)
      | None \<Rightarrow>
          emit [[Lit ''Found '', num (length xs), Lit '' USB interfaces'']]
            (dump_interfaces 0 xs))"
| "extract_usb_info pl interface_name = ([expected_list], Inr ())"

section \<open>The command line\<close>

record args =
  interface_name :: "string option"
  list_flag :: bool
  debug :: "string option"

text \<open>
  Lines 178 to 183 of \<^verbatim>\<open>main\<close>: the property list is loaded. The two loaders read
  the outside world, so what they print and return is given:
  \<open>get_usb_interfaces\<close> for the \<^verbatim>\<open>ioreg\<close> command and \<open>load_from_file\<close> for a file.
\<close>

definition acquire ::
  "frag list list \<times> plval \<Rightarrow> (string \<Rightarrow> frag list list \<times> plval) \<Rightarrow> args
     \<Rightarrow> frag list list \<times> plval" where
  "acquire get_usb_interfaces load_from_file a =
     (case debug a of
        None \<Rightarrow>
          ([Lit ''Getting data from ioreg command''] # fst get_usb_interfaces,
           snd get_usb_interfaces)
      | Some f \<Rightarrow>
          if f \<noteq> [] then
            ([Lit ''Loading from file: '', Fmt (PStr f)] # fst (load_from_file f),
             snd (load_from_file f))
          else
            ([Lit ''Getting data from ioreg command''] # fst get_usb_interfaces,
             snd get_usb_interfaces))"

text \<open>Lines 184 to 192 of \<^verbatim>\<open>main\<close>: the choice between the dump and the lookup.\<close>

definition named :: "args \<Rightarrow> bool" where
  "named a = (case interface_name a of None \<Rightarrow> False | Some n \<Rightarrow> n \<noteq> [])"

definition main ::
  "frag list list \<times> plval \<Rightarrow> (string \<Rightarrow> frag list list \<times> plval) \<Rightarrow> args \<Rightarrow> outcome" where
  "main get_usb_interfaces load_from_file a =
     (let loaded = acquire get_usb_interfaces load_from_file a;
          pl = snd loaded
      in emit (fst loaded)
           (if \<not> truthy pl then ([[Lit ''No data to process'']], Inr ())
            else if list_flag a \<or> \<not> named a then extract_usb_info pl None
            else extract_usb_info pl (interface_name a)))"

section \<open>Notions of the specification\<close>

text \<open>
  The \<^verbatim>\<open>IOTTYDevice\<close> value a grandchild carries: the entry is a dictionary, the
  field is present, and its value is not empty.
\<close>

definition tty_of :: "plval \<Rightarrow> plval option" where
  "tty_of gc =
     (case as_dict gc of
        None \<Rightarrow> None
      | Some g \<Rightarrow>
          (case map_of g ''IOTTYDevice'' of
             None \<Rightarrow> None
           | Some t \<Rightarrow> if truthy t then Some t else None))"

text \<open>A class-10 interface whose name is the target.\<close>

definition candidate :: "string \<Rightarrow> plval \<Rightarrow> bool" where
  "candidate n x =
     (case as_dict x of None \<Rightarrow> False | Some d \<Rightarrow> name_is d n \<and> class_is_10 d)"

text \<open>
  A child with nothing to find below it: it is no dictionary, or its
  \<^verbatim>\<open>IORegistryEntryChildren\<close> can be iterated and no grandchild carries a TTY device.
  An interface is barren when its \<^verbatim>\<open>IORegistryEntryChildren\<close> can be iterated and
  every child is.
\<close>

definition barren_child :: "plval \<Rightarrow> bool" where
  "barren_child child =
     (case as_dict child of
        None \<Rightarrow> True
      | Some c \<Rightarrow>
          (case py_iter (get_or c ''IORegistryEntryChildren'' (PList [])) of
             Inl e \<Rightarrow> False
           | Inr gcs \<Rightarrow> list_all (\<lambda>gc. tty_of gc = None) gcs))"

definition barren_interface :: "(string \<times> plval) list \<Rightarrow> bool" where
  "barren_interface d =
     (case py_iter (get_or d ''IORegistryEntryChildren'' (PList [])) of
        Inl e \<Rightarrow> False
      | Inr cs \<Rightarrow> list_all barren_child cs)"

text \<open>
  Two dictionaries that agree on every key but \<^verbatim>\<open>IORegistryEntryChildren\<close>, and two
  list elements that are equal or are such dictionaries of a class other than 10.
\<close>

definition differ_only_in_children ::
  "(string \<times> plval) list \<Rightarrow> (string \<times> plval) list \<Rightarrow> bool" where
  "differ_only_in_children d d' =
     list_all (\<lambda>k. k = ''IORegistryEntryChildren'' \<or> map_of d k = map_of d' k)
       (map fst d @ map fst d')"

definition same_but_other_class_children :: "plval \<Rightarrow> plval \<Rightarrow> bool" where
  "same_but_other_class_children x y =
     (x = y \<or>
      (case as_dict x of
         None \<Rightarrow> False
       | Some d \<Rightarrow>
           (case as_dict y of
              None \<Rightarrow> False
            | Some d' \<Rightarrow> \<not> class_is_10 d \<and> differ_only_in_children d d')))"

text \<open>
  The fields of an interface entry with the labels the dump prints them under: those
  read with a default, and those tested for presence first.
\<close>

definition defaulted_fields :: "(string \<times> string) list" where
  "defaulted_fields =
     [(''IORegistryEntryName'', ''Name: ''), (''bInterfaceClass'', ''Class: ''),
      (''bInterfaceSubClass'', ''SubClass: ''), (''bInterfaceProtocol'', ''Protocol: ''),
      (''idVendor'', ''Vendor ID: ''), (''idProduct'', ''Product ID: ''),
      (''locationID'', ''Location ID: '')]"

definition optional_fields :: "(string \<times> string) list" where
  "optional_fields =
     [(''USB Product Name'', ''Product: ''), (''USB Vendor Name'', ''Vendor: ''),
      (''USB Serial Number'', ''Serial: '')]"

section \<open>A top-level value that is not a list\<close>

text \<open>
  C4. When the top-level value is not a list, \<open>find_tty_by_interface_name\<close> prints the
  "expected list" diagnostic and returns \<open>None\<close>, and \<open>extract_usb_info\<close> prints the
  same diagnostic and nothing else, whatever name it is given.
\<close>

theorem not_a_list_diagnostic:
  "\<not> is_list pl \<Longrightarrow>
     find_tty_by_interface_name pl n =
       ([[Lit ''Error: Expected a list at the top level'']], Inr None) \<and>
     extract_usb_info pl nm =
       ([[Lit ''Error: Expected a list at the top level'']], Inr ())"
  by (cases pl) (simp_all add: expected_list_def)

theorem not_a_list_diagnostic_witness:
  "\<not> is_list (PDict [(''IORegistryEntryName'', PStr ''STM32 CDC ACM0'')]) \<and>
   find_tty_by_interface_name (PDict [(''IORegistryEntryName'', PStr ''STM32 CDC ACM0'')])
     ''STM32 CDC ACM0'' =
     ([[Lit ''Error: Expected a list at the top level'']], Inr None) \<and>
   extract_usb_info (PDict [(''IORegistryEntryName'', PStr ''STM32 CDC ACM0'')]) None =
     ([[Lit ''Error: Expected a list at the top level'']], Inr ())"
  using not_a_list_diagnostic
    [of "PDict [(''IORegistryEntryName'', PStr ''STM32 CDC ACM0'')]" "''STM32 CDC ACM0''" None]
  by simp

section \<open>Properties of the resolution\<close>

lemma scan_grandchildren_step:
  "scan_grandchildren (gc # gcs) =
     (case tty_of gc of Some t \<Rightarrow> Some t | None \<Rightarrow> scan_grandchildren gcs)"
  by (simp add: tty_of_def split: option.split)

lemma scan_grandchildren_none:
  "\<forall>gc\<in>set gcs. tty_of gc = None \<Longrightarrow> scan_grandchildren gcs = None"
proof (induction gcs)
  case Nil
  show ?case by simp
next
  case (Cons gc gcs)
  then show ?case by (simp only: scan_grandchildren_step) simp
qed

lemma scan_grandchildren_first:
  "\<forall>x\<in>set gpre. tty_of x = None \<Longrightarrow> tty_of g = Some t \<Longrightarrow>
     scan_grandchildren (gpre @ g # gpost) = Some t"
proof (induction gpre)
  case Nil
  then show ?case by (simp only: append_Nil scan_grandchildren_step) simp
next
  case (Cons x gpre)
  then show ?case by (simp only: append_Cons scan_grandchildren_step) simp
qed

lemma scan_children_barren_step:
  "barren_child c \<Longrightarrow> scan_children (c # cs) = scan_children cs"
  by (auto simp: barren_child_def list_all_iff scan_grandchildren_none
      split: option.splits sum.splits)

lemma scan_children_barren:
  "\<forall>c\<in>set cs. barren_child c \<Longrightarrow> scan_children cs = Inr None"
proof (induction cs)
  case Nil
  show ?case by simp
next
  case (Cons c cs)
  then show ?case by (simp only: scan_children_barren_step list.set insert_iff ball_simps) simp
qed

lemma scan_children_skip:
  "\<forall>x\<in>set cpre. barren_child x \<Longrightarrow> scan_children (cpre @ cs) = scan_children cs"
proof (induction cpre)
  case Nil
  show ?case by simp
next
  case (Cons x cpre)
  then show ?case by (simp add: scan_children_barren_step del: scan_children.simps)
qed

lemma scan_interfaces_skip:
  "\<forall>x\<in>set pre. \<not> candidate n x \<Longrightarrow> scan_interfaces (pre @ xs) n = scan_interfaces xs n"
proof (induction pre)
  case Nil
  show ?case by simp
next
  case (Cons x pre)
  then show ?case by (auto simp: candidate_def split: option.splits)
qed

text \<open>
  C1. Let an interface be the first class-10 interface of the list whose name equals the
  target, and let a grandchild of it be the first one, going through its children and
  their grandchildren in list order, whose \<^verbatim>\<open>IOTTYDevice\<close> is present and not empty.
  Then \<open>find_tty_by_interface_name\<close> returns the \<^verbatim>\<open>IOTTYDevice\<close> value of that
  grandchild, whatever follows it at any of the three levels: nothing after the first
  hit is looked at.
\<close>

theorem first_tty_of_first_match:
  assumes pre: "\<forall>x\<in>set pre. \<not> candidate n x"
    and d: "name_is d n" "class_is_10 d"
    and children: "py_iter (get_or d ''IORegistryEntryChildren'' (PList [])) = Inr (cpre @ PDict c # cpost)"
    and cpre: "\<forall>x\<in>set cpre. barren_child x"
    and grandchildren: "py_iter (get_or c ''IORegistryEntryChildren'' (PList [])) = Inr (gpre @ g # gpost)"
    and gpre: "\<forall>x\<in>set gpre. tty_of x = None"
    and g: "tty_of g = Some t"
  shows "find_tty_by_interface_name (PList (pre @ PDict d # post)) n = ([], Inr (Some t))"
proof -
  have "scan_grandchildren (gpre @ g # gpost) = Some t"
    using gpre g by (rule scan_grandchildren_first)
  then have "scan_children (PDict c # cpost) = Inr (Some t)"
    using grandchildren by simp
  then have "scan_children (cpre @ PDict c # cpost) = Inr (Some t)"
    using cpre by (simp only: scan_children_skip)
  then have "search_interface d = Inr (Some t)"
    using children by (simp add: search_interface_def)
  then have "scan_interfaces (PDict d # post) n = Inr (Some t)"
    using d by simp
  then have "scan_interfaces (pre @ PDict d # post) n = Inr (Some t)"
    using pre by (simp only: scan_interfaces_skip)
  then show ?thesis by simp
qed

theorem first_tty_of_first_match_witness:
  "list_all (\<lambda>x. \<not> candidate ''STM32 CDC ACM0'' x)
     [PDict [(''IORegistryEntryName'', PStr ''STM32 CDC ACM0''),
             (''bInterfaceClass'', PInt 2)]] \<and>
   list_all barren_child [PInt 7] \<and>
   list_all (\<lambda>x. tty_of x = None) [PDict [(''IOTTYDevice'', PStr '''')]] \<and>
   tty_of (PDict [(''IOTTYDevice'', PStr ''/dev/cu.usbmodem14203'')]) =
     Some (PStr ''/dev/cu.usbmodem14203'') \<and>
   find_tty_by_interface_name
     (PList [PDict [(''IORegistryEntryName'', PStr ''STM32 CDC ACM0''),
                    (''bInterfaceClass'', PInt 2)],
             PDict [(''IORegistryEntryName'', PStr ''STM32 CDC ACM0''),
                    (''bInterfaceClass'', PInt 10),
                    (''IORegistryEntryChildren'',
                       PList [PInt 7,
                              PDict [(''IORegistryEntryChildren'',
                                        PList [PDict [(''IOTTYDevice'', PStr '''')],
                                               PDict [(''IOTTYDevice'',
                                                         PStr ''/dev/cu.usbmodem14203'')],
                                               PDict [(''IOTTYDevice'',
                                                         PStr ''/dev/cu.other'')]])]])],
             PDict [(''IORegistryEntryName'', PStr ''STM32 CDC ACM0''),
                    (''bInterfaceClass'', PInt 10),
                    (''IORegistryEntryChildren'', PInt 5)]])
     ''STM32 CDC ACM0'' =
     ([], Inr (Some (PStr ''/dev/cu.usbmodem14203'')))"
  using first_tty_of_first_match
    [where pre = "[PDict [(''IORegistryEntryName'', PStr ''STM32 CDC ACM0''),
                          (''bInterfaceClass'', PInt 2)]]"
       and n = "''STM32 CDC ACM0''"
       and d = "[(''IORegistryEntryName'', PStr ''STM32 CDC ACM0''),
                 (''bInterfaceClass'', PInt 10),
                 (''IORegistryEntryChildren'',
                    PList [PInt 7,
                           PDict [(''IORegistryEntryChildren'',
                                     PList [PDict [(''IOTTYDevice'', PStr '''')],
                                            PDict [(''IOTTYDevice'',
                                                      PStr ''/dev/cu.usbmodem14203'')],
                                            PDict [(''IOTTYDevice'',
                                                      PStr ''/dev/cu.other'')]])]])]"
       and cpre = "[PInt 7]"
       and c = "[(''IORegistryEntryChildren'',
                    PList [PDict [(''IOTTYDevice'', PStr '''')],
                           PDict [(''IOTTYDevice'', PStr ''/dev/cu.usbmodem14203'')],
                           PDict [(''IOTTYDevice'', PStr ''/dev/cu.other'')]])]"
       and cpost = "[]"
       and gpre = "[PDict [(''IOTTYDevice'', PStr '''')]]"
       and g = "PDict [(''IOTTYDevice'', PStr ''/dev/cu.usbmodem14203'')]"
       and gpost = "[PDict [(''IOTTYDevice'', PStr ''/dev/cu.other'')]]"
       and t = "PStr ''/dev/cu.usbmodem14203''"
       and post = "[PDict [(''IORegistryEntryName'', PStr ''STM32 CDC ACM0''),
                           (''bInterfaceClass'', PInt 10),
                           (''IORegistryEntryChildren'', PInt 5)]]"]
  by (simp add: candidate_def name_is_def class_is_10_def get_or_def barren_child_def
      tty_of_def)

lemma search_barren: "barren_interface d \<Longrightarrow> search_interface d = Inr None"
  by (auto simp: barren_interface_def search_interface_def list_all_iff scan_children_barren
      split: sum.splits)

text \<open>
  C3, as the code has it. When every class-10 interface of the list whose name equals
  the target is barren (its \<^verbatim>\<open>IORegistryEntryChildren\<close> and those of its children
  can be iterated, and no grandchild carries a non-empty \<^verbatim>\<open>IOTTYDevice\<close>),
  \<open>find_tty_by_interface_name\<close> returns \<open>None\<close> and raises nothing.
\<close>

theorem no_tty_anywhere:
  "\<forall>d. PDict d \<in> set xs \<longrightarrow> name_is d n \<longrightarrow> class_is_10 d \<longrightarrow> barren_interface d \<Longrightarrow>
     find_tty_by_interface_name (PList xs) n = ([], Inr None)"
proof -
  assume "\<forall>d. PDict d \<in> set xs \<longrightarrow> name_is d n \<longrightarrow> class_is_10 d \<longrightarrow> barren_interface d"
  then have "scan_interfaces xs n = Inr None"
  proof (induction xs)
    case Nil
    show ?case by simp
  next
    case (Cons x xs)
    show ?case
    proof (cases x)
      case (PDict d)
      with Cons show ?thesis by (auto simp: search_barren)
    qed (use Cons in auto)
  qed
  then show ?thesis by simp
qed

theorem no_tty_anywhere_witness:
  "candidate ''ACM0''
     (PDict [(''IORegistryEntryName'', PStr ''ACM0''),
             (''bInterfaceClass'', PInt 10),
             (''IORegistryEntryChildren'',
                PList [PDict [(''IORegistryEntryChildren'',
                                PList [PDict [(''IOClass'', PStr ''X'')]])]])]) \<and>
   barren_interface
     [(''IORegistryEntryName'', PStr ''ACM0''),
      (''bInterfaceClass'', PInt 10),
      (''IORegistryEntryChildren'',
         PList [PDict [(''IORegistryEntryChildren'',
                         PList [PDict [(''IOClass'', PStr ''X'')]])]])] \<and>
   find_tty_by_interface_name
     (PList [PDict [(''IORegistryEntryName'', PStr ''ACM0''),
                    (''bInterfaceClass'', PInt 10),
                    (''IORegistryEntryChildren'',
                       PList [PDict [(''IORegistryEntryChildren'',
                                       PList [PDict [(''IOClass'', PStr ''X'')]])]])]])
     ''ACM0'' = ([], Inr None)"
  using no_tty_anywhere
    [of "[PDict [(''IORegistryEntryName'', PStr ''ACM0''),
                 (''bInterfaceClass'', PInt 10),
                 (''IORegistryEntryChildren'',
                    PList [PDict [(''IORegistryEntryChildren'',
                                    PList [PDict [(''IOClass'', PStr ''X'')]])]])]]" "''ACM0''"]
  by (simp add: candidate_def name_is_def class_is_10_def barren_interface_def
      barren_child_def tty_of_def get_or_def)

text \<open>
  C3 as it is stated fails. A list may hold a barren class-10 interface of the right
  name and, after it, another one with a TTY device: the search goes on and returns that
  device. And a class-10 interface of the right name whose \<^verbatim>\<open>IORegistryEntryChildren\<close>
  is an integer has no child with a TTY device, yet the loop over it raises
  \<^verbatim>\<open>TypeError\<close>.
\<close>

theorem no_tty_counterexample:
  "candidate ''ACM0'' (PDict [(''IORegistryEntryName'', PStr ''ACM0''),
                              (''bInterfaceClass'', PInt 10)]) \<and>
   barren_interface [(''IORegistryEntryName'', PStr ''ACM0''), (''bInterfaceClass'', PInt 10)] \<and>
   find_tty_by_interface_name
     (PList [PDict [(''IORegistryEntryName'', PStr ''ACM0''), (''bInterfaceClass'', PInt 10)],
             PDict [(''IORegistryEntryName'', PStr ''ACM0''), (''bInterfaceClass'', PInt 10),
                    (''IORegistryEntryChildren'',
                       PList [PDict [(''IORegistryEntryChildren'',
                                       PList [PDict [(''IOTTYDevice'', PStr ''/dev/a'')]])]])]])
     ''ACM0'' = ([], Inr (Some (PStr ''/dev/a''))) \<and>
   candidate ''ACM0'' (PDict [(''IORegistryEntryName'', PStr ''ACM0''),
                              (''bInterfaceClass'', PInt 10),
                              (''IORegistryEntryChildren'', PInt 5)]) \<and>
   find_tty_by_interface_name
     (PList [PDict [(''IORegistryEntryName'', PStr ''ACM0''), (''bInterfaceClass'', PInt 10),
                    (''IORegistryEntryChildren'', PInt 5)]])
     ''ACM0'' = ([], Inl TypeError)"
  by (simp add: candidate_def name_is_def class_is_10_def get_or_def barren_interface_def
      search_interface_def)

text \<open>
  C8. The name is compared by equality of strings and nothing else: when no dictionary
  of the list has a name, as line 62 reads it, equal to the target character for
  character, the result is \<open>None\<close>. A name that differs in case or by a trailing space
  is such a name.
\<close>

theorem exact_name:
  "\<forall>d. PDict d \<in> set xs \<longrightarrow> get_or d ''IORegistryEntryName'' (PStr '''') \<noteq> PStr n \<Longrightarrow>
     find_tty_by_interface_name (PList xs) n = ([], Inr None)"
proof -
  assume "\<forall>d. PDict d \<in> set xs \<longrightarrow> get_or d ''IORegistryEntryName'' (PStr '''') \<noteq> PStr n"
  then have "scan_interfaces xs n = Inr None"
  proof (induction xs)
    case Nil
    show ?case by simp
  next
    case (Cons x xs)
    show ?case
    proof (cases x)
      case (PDict d)
      with Cons show ?thesis by (auto simp: name_is_def)
    qed (use Cons in auto)
  qed
  then show ?thesis by simp
qed

theorem exact_name_witness:
  "get_or [(''IORegistryEntryName'', PStr ''stm32 cdc acm0''),
           (''bInterfaceClass'', PInt 10),
           (''IORegistryEntryChildren'',
              PList [PDict [(''IORegistryEntryChildren'',
                              PList [PDict [(''IOTTYDevice'', PStr ''/dev/a'')]])]])]
     ''IORegistryEntryName'' (PStr '''') \<noteq> PStr ''STM32 CDC ACM0'' \<and>
   get_or [(''IORegistryEntryName'', PStr ''STM32 CDC ACM0 ''),
           (''bInterfaceClass'', PInt 10),
           (''IORegistryEntryChildren'',
              PList [PDict [(''IORegistryEntryChildren'',
                              PList [PDict [(''IOTTYDevice'', PStr ''/dev/b'')]])]])]
     ''IORegistryEntryName'' (PStr '''') \<noteq> PStr ''STM32 CDC ACM0'' \<and>
   find_tty_by_interface_name
     (PList [PDict [(''IORegistryEntryName'', PStr ''stm32 cdc acm0''),
                    (''bInterfaceClass'', PInt 10),
                    (''IORegistryEntryChildren'',
                       PList [PDict [(''IORegistryEntryChildren'',
                                       PList [PDict [(''IOTTYDevice'', PStr ''/dev/a'')]])]])],
             PDict [(''IORegistryEntryName'', PStr ''STM32 CDC ACM0 ''),
                    (''bInterfaceClass'', PInt 10),
                    (''IORegistryEntryChildren'',
                       PList [PDict [(''IORegistryEntryChildren'',
                                       PList [PDict [(''IOTTYDevice'', PStr ''/dev/b'')]])]])]])
     ''STM32 CDC ACM0'' = ([], Inr None)"
  using exact_name
    [of "[PDict [(''IORegistryEntryName'', PStr ''stm32 cdc acm0''),
                 (''bInterfaceClass'', PInt 10),
                 (''IORegistryEntryChildren'',
                    PList [PDict [(''IORegistryEntryChildren'',
                                    PList [PDict [(''IOTTYDevice'', PStr ''/dev/a'')]])]])],
          PDict [(''IORegistryEntryName'', PStr ''STM32 CDC ACM0 ''),
                 (''bInterfaceClass'', PInt 10),
                 (''IORegistryEntryChildren'',
                    PList [PDict [(''IORegistryEntryChildren'',
                                    PList [PDict [(''IOTTYDevice'', PStr ''/dev/b'')]])]])]]"
        "''STM32 CDC ACM0''"]
  by (simp add: get_or_def)

text \<open>
  C9. A dictionary without the key \<^verbatim>\<open>IORegistryEntryName\<close> matches the empty target
  name, and when its class is 10 its descendants are searched: the result for a list
  that starts with it is what the search below it gives, and the rest of the list is
  looked at only when that search finds nothing.
\<close>

theorem missing_name_matches_empty:
  "map_of d ''IORegistryEntryName'' = None \<Longrightarrow>
     name_is d '''' \<and>
     (class_is_10 d \<longrightarrow>
        find_tty_by_interface_name (PList (PDict d # rest)) '''' =
          (case search_interface d of
             Inl e \<Rightarrow> ([], Inl e)
           | Inr None \<Rightarrow> find_tty_by_interface_name (PList rest) ''''
           | Inr (Some t) \<Rightarrow> ([], Inr (Some t))))"
  by (auto simp: name_is_def get_or_def split: sum.splits option.splits)

theorem missing_name_matches_empty_witness:
  "map_of [(''bInterfaceClass'', PInt 10),
           (''IORegistryEntryChildren'',
              PList [PDict [(''IORegistryEntryChildren'',
                              PList [PDict [(''IOTTYDevice'', PStr ''/dev/a'')]])]])]
     ''IORegistryEntryName'' = None \<and>
   class_is_10 [(''bInterfaceClass'', PInt 10),
           (''IORegistryEntryChildren'',
              PList [PDict [(''IORegistryEntryChildren'',
                              PList [PDict [(''IOTTYDevice'', PStr ''/dev/a'')]])]])] \<and>
   find_tty_by_interface_name
     (PList [PDict [(''bInterfaceClass'', PInt 10),
                    (''IORegistryEntryChildren'',
                       PList [PDict [(''IORegistryEntryChildren'',
                                       PList [PDict [(''IOTTYDevice'', PStr ''/dev/a'')]])]])]])
     '''' = ([], Inr (Some (PStr ''/dev/a'')))"
  using missing_name_matches_empty
    [of "[(''bInterfaceClass'', PInt 10),
          (''IORegistryEntryChildren'',
             PList [PDict [(''IORegistryEntryChildren'',
                             PList [PDict [(''IOTTYDevice'', PStr ''/dev/a'')]])]])]" "[]"]
  by (simp add: class_is_10_def search_interface_def get_or_def)

lemma differ_only_in_childrenD:
  assumes "differ_only_in_children d d'" "k \<noteq> ''IORegistryEntryChildren''"
  shows "map_of d k = map_of d' k"
proof (cases "k \<in> set (map fst d @ map fst d')")
  case True
  with assms show ?thesis by (auto simp: differ_only_in_children_def list_all_iff)
next
  case False
  then have "map_of d k = None" "map_of d' k = None"
    by (simp_all add: map_of_eq_None_iff)
  then show ?thesis by simp
qed

lemma same_but_step:
  assumes "same_but_other_class_children x y"
    and "scan_interfaces xs n = scan_interfaces ys n"
  shows "scan_interfaces (x # xs) n = scan_interfaces (y # ys) n"
proof (cases "x = y")
  case True
  show ?thesis unfolding True scan_interfaces.simps assms(2) by (rule refl)
next
  case False
  with assms(1) obtain d d' where xy: "x = PDict d" "y = PDict d'"
    and cls: "\<not> class_is_10 d" and diff: "differ_only_in_children d d'"
    by (cases x; cases y) (auto simp: same_but_other_class_children_def)
  have "map_of d ''bInterfaceClass'' = map_of d' ''bInterfaceClass''"
    and "map_of d ''IORegistryEntryName'' = map_of d' ''IORegistryEntryName''"
    using diff by (simp_all add: differ_only_in_childrenD)
  then have "class_is_10 d' = class_is_10 d" "name_is d' n = name_is d n"
    by (simp_all add: class_is_10_def name_is_def get_or_def)
  with cls xy show ?thesis by (simp add: assms(2))
qed

text \<open>
  C2. Two lists whose elements are pairwise equal, or are dictionaries of a class other
  than 10 that agree on every key but \<^verbatim>\<open>IORegistryEntryChildren\<close>, give the same
  result, printed output and exception included: the children of an interface whose
  class is not 10 are never looked at.
\<close>

theorem other_class_children_ignored:
  "list_all2 same_but_other_class_children xs ys \<Longrightarrow>
     find_tty_by_interface_name (PList xs) n = find_tty_by_interface_name (PList ys) n"
proof -
  assume "list_all2 same_but_other_class_children xs ys"
  then have "scan_interfaces xs n = scan_interfaces ys n"
  proof (induction rule: list_all2_induct)
    case Nil
    show ?case by simp
  next
    case (Cons x xs y ys)
    then show ?case by (simp only: same_but_step)
  qed
  then show ?thesis by simp
qed

theorem other_class_children_ignored_witness:
  "list_all2 same_but_other_class_children
     [PDict [(''IORegistryEntryName'', PStr ''ACM0''), (''bInterfaceClass'', PInt 2),
             (''IORegistryEntryChildren'',
                PList [PDict [(''IORegistryEntryChildren'',
                                PList [PDict [(''IOTTYDevice'', PStr ''/dev/ctl'')]])]])],
      PDict [(''IORegistryEntryName'', PStr ''ACM0''), (''bInterfaceClass'', PInt 10),
             (''IORegistryEntryChildren'',
                PList [PDict [(''IORegistryEntryChildren'',
                                PList [PDict [(''IOTTYDevice'', PStr ''/dev/data'')]])]])]]
     [PDict [(''IORegistryEntryName'', PStr ''ACM0''), (''bInterfaceClass'', PInt 2),
             (''IORegistryEntryChildren'', PInt 5)],
      PDict [(''IORegistryEntryName'', PStr ''ACM0''), (''bInterfaceClass'', PInt 10),
             (''IORegistryEntryChildren'',
                PList [PDict [(''IORegistryEntryChildren'',
                                PList [PDict [(''IOTTYDevice'', PStr ''/dev/data'')]])]])]] \<and>
   find_tty_by_interface_name
     (PList [PDict [(''IORegistryEntryName'', PStr ''ACM0''), (''bInterfaceClass'', PInt 2),
                    (''IORegistryEntryChildren'',
                       PList [PDict [(''IORegistryEntryChildren'',
                                       PList [PDict [(''IOTTYDevice'', PStr ''/dev/ctl'')]])]])],
             PDict [(''IORegistryEntryName'', PStr ''ACM0''), (''bInterfaceClass'', PInt 10),
                    (''IORegistryEntryChildren'',
                       PList [PDict [(''IORegistryEntryChildren'',
                                       PList [PDict [(''IOTTYDevice'', PStr ''/dev/data'')]])]])]])
     ''ACM0'' =
   find_tty_by_interface_name
     (PList [PDict [(''IORegistryEntryName'', PStr ''ACM0''), (''bInterfaceClass'', PInt 2),
                    (''IORegistryEntryChildren'', PInt 5)],
             PDict [(''IORegistryEntryName'', PStr ''ACM0''), (''bInterfaceClass'', PInt 10),
                    (''IORegistryEntryChildren'',
                       PList [PDict [(''IORegistryEntryChildren'',
                                       PList [PDict [(''IOTTYDevice'', PStr ''/dev/data'')]])]])]])
     ''ACM0''"
proof -
  have rel: "list_all2 same_but_other_class_children
     [PDict [(''IORegistryEntryName'', PStr ''ACM0''), (''bInterfaceClass'', PInt 2),
             (''IORegistryEntryChildren'',
                PList [PDict [(''IORegistryEntryChildren'',
                                PList [PDict [(''IOTTYDevice'', PStr ''/dev/ctl'')]])]])],
      PDict [(''IORegistryEntryName'', PStr ''ACM0''), (''bInterfaceClass'', PInt 10),
             (''IORegistryEntryChildren'',
                PList [PDict [(''IORegistryEntryChildren'',
                                PList [PDict [(''IOTTYDevice'', PStr ''/dev/data'')]])]])]]
     [PDict [(''IORegistryEntryName'', PStr ''ACM0''), (''bInterfaceClass'', PInt 2),
             (''IORegistryEntryChildren'', PInt 5)],
      PDict [(''IORegistryEntryName'', PStr ''ACM0''), (''bInterfaceClass'', PInt 10),
             (''IORegistryEntryChildren'',
                PList [PDict [(''IORegistryEntryChildren'',
                                PList [PDict [(''IOTTYDevice'', PStr ''/dev/data'')]])]])]]"
    by (simp add: same_but_other_class_children_def class_is_10_def
        differ_only_in_children_def)
  from rel other_class_children_ignored [OF rel, of "''ACM0''"] show ?thesis
    by (rule conjI)
qed

section \<open>Properties of the full dump\<close>

lemma emit_emit: "emit a (emit b r) = emit (a @ b) r"
  by (simp add: emit_def)

lemma dump_grandchildren_append:
  "dump_grandchildren k (a @ b) = dump_grandchildren k a @ dump_grandchildren (k + length a) b"
  by (induction a arbitrary: k) (simp_all add: Let_def split: option.split)

text \<open>One pass of a loop of the dump either prints and goes on, or raises.\<close>

lemma dump_children_Cons:
  "(\<exists>ls. \<forall>cs. dump_children j (c # cs) = emit ls (dump_children (Suc j) cs)) \<or>
   (\<exists>ls e. \<forall>cs. dump_children j (c # cs) = (ls, Inl e))"
proof (cases "as_dict c")
  case None
  then have "\<forall>cs. dump_children j (c # cs) =
      emit [[Lit ''  Child #'', num (j + 1), Lit '' is not a dictionary'']]
        (dump_children (Suc j) cs)"
    by simp
  then show ?thesis by blast
next
  case (Some d)
  define head where "head = [Lit ''  - Child #'', num (j + 1), Lit '': '',
            Fmt (get_or d ''IORegistryEntryName'' (PStr ''Unknown'')),
            Lit '' (Class: '', Fmt (get_or d ''IOClass'' (PStr ''Unknown'')), Lit '')'']"
  define gv where "gv = get_or d ''IORegistryEntryChildren'' (PList [])"
  have eq: "dump_children j (c # cs) =
      emit [head]
        (if truthy gv then
           (case py_len gv of
              Inl e \<Rightarrow> ([], Inl e)
            | Inr n \<Rightarrow>
                emit [[Lit ''    Grandchildren ('', num n, Lit ''):'']]
                  (case py_iter gv of
                     Inl e \<Rightarrow> ([], Inl e)
                   | Inr gcs \<Rightarrow> emit (dump_grandchildren 0 gcs) (dump_children (Suc j) cs)))
         else dump_children (Suc j) cs)" for cs
    using Some unfolding head_def gv_def by (simp add: Let_def)
  show ?thesis
  proof (cases "truthy gv")
    case False
    then have "\<forall>cs. dump_children j (c # cs) = emit [head] (dump_children (Suc j) cs)"
      by (simp add: eq del: dump_children.simps)
    then show ?thesis by blast
  next
    case True
    show ?thesis
    proof (cases "py_len gv")
      case (Inl e)
      with True have "\<forall>cs. dump_children j (c # cs) = ([head], Inl e)"
        by (simp add: eq emit_def del: dump_children.simps)
      then show ?thesis by blast
    next
      case (Inr n)
      show ?thesis
      proof (cases "py_iter gv")
        case (Inl e)
        with True Inr have "\<forall>cs. dump_children j (c # cs) =
            ([head, [Lit ''    Grandchildren ('', num n, Lit ''):'']], Inl e)"
          by (simp add: eq emit_def del: dump_children.simps)
        then show ?thesis by blast
      next
        case gcs: (Inr gcs)
        with True Inr have "\<forall>cs. dump_children j (c # cs) =
            emit ([head, [Lit ''    Grandchildren ('', num n, Lit ''):'']]
                  @ dump_grandchildren 0 gcs)
              (dump_children (Suc j) cs)"
          by (simp add: eq emit_def del: dump_children.simps)
        then show ?thesis by blast
      qed
    qed
  qed
qed

lemma dump_children_append:
  "dump_children j a = (out, Inr ()) \<Longrightarrow>
     dump_children j (a @ b) = emit out (dump_children (j + length a) b)"
proof (induction a arbitrary: j out)
  case Nil
  then show ?case by (simp add: emit_def)
next
  case (Cons c a)
  from dump_children_Cons [of j c] show ?case
  proof (elim disjE exE)
    fix ls
    assume step: "\<forall>cs. dump_children j (c # cs) = emit ls (dump_children (Suc j) cs)"
    obtain out' r' where rest: "dump_children (Suc j) a = (out', r')"
      by (cases "dump_children (Suc j) a")
    with step Cons.prems have out: "out = ls @ out'" and r': "r' = Inr ()"
      by (simp_all add: emit_def)
    from rest r' have "dump_children (Suc j) (a @ b) = emit out' (dump_children (Suc j + length a) b)"
      by (simp add: Cons.IH)
    with step out show ?thesis
      by (simp add: emit_emit del: dump_children.simps)
  next
    fix ls e
    assume "\<forall>cs. dump_children j (c # cs) = (ls, Inl e)"
    with Cons.prems show ?thesis by simp
  qed
qed

lemma dump_interfaces_Cons:
  "(\<exists>ls. \<forall>xs. dump_interfaces i (x # xs) = emit ls (dump_interfaces (Suc i) xs)) \<or>
   (\<exists>ls e. \<forall>xs. dump_interfaces i (x # xs) = (ls, Inl e))"
proof (cases "as_dict x")
  case None
  then have "\<forall>xs. dump_interfaces i (x # xs) =
      emit [not_a_dictionary i x] (dump_interfaces (Suc i) xs)"
    by simp
  then show ?thesis by blast
next
  case (Some d)
  obtain co cr where ch: "interface_children d = (co, cr)"
    by (cases "interface_children d")
  show ?thesis
  proof (cases cr)
    case (Inl e)
    with Some ch have "\<forall>xs. dump_interfaces i (x # xs) =
        ([Lit (newline # ''--- USB Interface #''), num (i + 1), Lit '' ---'']
         # interface_fields d @ co, Inl e)"
      by (simp add: emit_def)
    then show ?thesis by blast
  next
    case (Inr u)
    with Some ch have "\<forall>xs. dump_interfaces i (x # xs) =
        emit ([Lit (newline # ''--- USB Interface #''), num (i + 1), Lit '' ---'']
              # interface_fields d @ co)
          (dump_interfaces (Suc i) xs)"
      by (simp add: emit_def)
    then show ?thesis by blast
  qed
qed

lemma dump_interfaces_append:
  "dump_interfaces i a = (out, Inr ()) \<Longrightarrow>
     dump_interfaces i (a @ b) = emit out (dump_interfaces (i + length a) b)"
proof (induction a arbitrary: i out)
  case Nil
  then show ?case by (simp add: emit_def)
next
  case (Cons x a)
  from dump_interfaces_Cons [of i x] show ?case
  proof (elim disjE exE)
    fix ls
    assume step: "\<forall>xs. dump_interfaces i (x # xs) = emit ls (dump_interfaces (Suc i) xs)"
    obtain out' r' where rest: "dump_interfaces (Suc i) a = (out', r')"
      by (cases "dump_interfaces (Suc i) a")
    with step Cons.prems have out: "out = ls @ out'" and r': "r' = Inr ()"
      by (simp_all add: emit_def)
    from rest r' have "dump_interfaces (Suc i) (a @ b) =
        emit out' (dump_interfaces (Suc i + length a) b)"
      by (simp add: Cons.IH)
    with step out show ?thesis
      by (simp add: emit_emit del: dump_interfaces.simps)
  next
    fix ls e
    assume "\<forall>xs. dump_interfaces i (x # xs) = (ls, Inl e)"
    with Cons.prems show ?thesis by simp
  qed
qed

text \<open>
  C6. In the full dump, an element of the top-level list that is not a dictionary is
  reported with its index, counted from 1, and with its type, and the loop goes on with
  the elements after it: when the elements before it were dumped without an exception,
  the output is the header, their output, the report of the element, and then whatever
  the loop does with the rest of the list from the next index on.
\<close>

theorem top_level_not_a_dictionary:
  assumes "as_dict x = None" and "dump_interfaces 0 pre = (out, Inr ())"
  shows "extract_usb_info (PList (pre @ x # post)) None =
     emit ([Lit ''Found '', num (length (pre @ x # post)), Lit '' USB interfaces'']
           # out
           @ [[Lit (newline # ''Interface #''), num (length pre + 1),
               Lit '' is not a dictionary, it's a '', Lit (type_str x)]])
       (dump_interfaces (Suc (length pre)) post)"
proof -
  have "dump_interfaces 0 (pre @ x # post) = emit out (dump_interfaces (length pre) (x # post))"
    using assms(2) by (simp add: dump_interfaces_append)
  moreover have "dump_interfaces (length pre) (x # post) =
      emit [not_a_dictionary (length pre) x] (dump_interfaces (Suc (length pre)) post)"
    using assms(1) by simp
  ultimately have "dump_interfaces 0 (pre @ x # post) =
      emit (out @ [not_a_dictionary (length pre) x]) (dump_interfaces (Suc (length pre)) post)"
    by (simp only: emit_emit)
  then show ?thesis
    by (simp add: emit_emit not_a_dictionary_def del: dump_interfaces.simps)
qed

theorem top_level_not_a_dictionary_witness:
  "as_dict (PInt 5) = None \<and>
   dump_interfaces 0 [PBool True] =
     ([[Lit (CHR 0x0A # ''Interface #''), Fmt (PInt 1),
        Lit '' is not a dictionary, it's a '', Lit ''<class 'bool'>'']], Inr ()) \<and>
   extract_usb_info
     (PList [PBool True, PInt 5,
             PDict [(''IORegistryEntryName'', PStr ''STM32 CDC ACM0''),
                    (''bInterfaceClass'', PInt 10)]]) None =
     ([[Lit ''Found '', Fmt (PInt 3), Lit '' USB interfaces''],
       [Lit (CHR 0x0A # ''Interface #''), Fmt (PInt 1),
        Lit '' is not a dictionary, it's a '', Lit ''<class 'bool'>''],
       [Lit (CHR 0x0A # ''Interface #''), Fmt (PInt 2),
        Lit '' is not a dictionary, it's a '', Lit ''<class 'int'>''],
       [Lit (CHR 0x0A # ''--- USB Interface #''), Fmt (PInt 3), Lit '' ---''],
       [Lit ''Name: '', Fmt (PStr ''STM32 CDC ACM0'')],
       [Lit ''Class: '', Fmt (PInt 10)],
       [Lit ''SubClass: '', Fmt (PStr ''Unknown'')],
       [Lit ''Protocol: '', Fmt (PStr ''Unknown'')],
       [Lit ''Vendor ID: '', Fmt (PStr ''Unknown'')],
       [Lit ''Product ID: '', Fmt (PStr ''Unknown'')],
       [Lit ''Location ID: '', Fmt (PStr ''Unknown'')]],
      Inr ())"
  using top_level_not_a_dictionary
    [where x = "PInt 5" and pre = "[PBool True]"
       and out = "[[Lit (CHR 0x0A # ''Interface #''), Fmt (PInt 1),
                    Lit '' is not a dictionary, it's a '', Lit ''<class 'bool'>'']]"
       and post = "[PDict [(''IORegistryEntryName'', PStr ''STM32 CDC ACM0''),
                           (''bInterfaceClass'', PInt 10)]]"]
  by (simp add: emit_def not_a_dictionary_def interface_fields_def interface_children_def
      get_or_def num_def newline_def)

lemma py_iter_len_truthy:
  "py_iter v = Inr xs \<Longrightarrow> py_len v = Inr (length xs) \<and> truthy v = (xs \<noteq> [])"
  by (cases v) auto

lemma dump_single_interface:
  "extract_usb_info (PList [PDict d]) None =
     emit ([[Lit ''Found '', num 1, Lit '' USB interfaces''],
            [Lit (newline # ''--- USB Interface #''), num 1, Lit '' ---'']]
           @ interface_fields d)
       (interface_children d)"
  by (cases "interface_children d") (simp add: emit_def split: sum.split)

lemma interface_children_iter:
  assumes "py_iter (get_or d ''IORegistryEntryChildren'' (PList [])) = Inr cs" and "cs \<noteq> []"
  shows "interface_children d =
     emit [[Lit (newline # ''  Children (''), num (length cs), Lit ''):'']] (dump_children 0 cs)"
  using assms py_iter_len_truthy [OF assms(1)] by (simp add: interface_children_def Let_def)

lemma dump_children_dict:
  assumes "py_iter (get_or c ''IORegistryEntryChildren'' (PList [])) = Inr gs" and "gs \<noteq> []"
  shows "dump_children j (PDict c # rest) =
     emit ([[Lit ''  - Child #'', num (j + 1), Lit '': '',
             Fmt (get_or c ''IORegistryEntryName'' (PStr ''Unknown'')),
             Lit '' (Class: '', Fmt (get_or c ''IOClass'' (PStr ''Unknown'')), Lit '')''],
            [Lit ''    Grandchildren ('', num (length gs), Lit ''):'']]
           @ dump_grandchildren 0 gs)
       (dump_children (Suc j) rest)"
  using assms py_iter_len_truthy [OF assms(1)] by (simp add: Let_def emit_def)

text \<open>
  C10. Below the top level the full dump reports a malformed element more poorly. Take
  the dump of a list holding one interface. A child of the interface that is not a
  dictionary is reported with its index alone, without its type, and the loop goes on
  with the next child. A grandchild that is not a dictionary prints nothing at all: the
  dump holds the lines of the grandchildren before it followed by those of the
  grandchildren after it, whose indices still count it.
\<close>

theorem nested_not_a_dictionary:
  "(as_dict x = None \<longrightarrow>
    py_iter (get_or d ''IORegistryEntryChildren'' (PList [])) = Inr (xpre @ x # xpost) \<longrightarrow>
    dump_children 0 xpre = (xout, Inr ()) \<longrightarrow>
      extract_usb_info (PList [PDict d]) None =
        emit ([[Lit ''Found '', num 1, Lit '' USB interfaces''],
               [Lit (newline # ''--- USB Interface #''), num 1, Lit '' ---'']]
              @ interface_fields d
              @ [[Lit (newline # ''  Children (''), num (length (xpre @ x # xpost)), Lit ''):'']]
              @ xout
              @ [[Lit ''  Child #'', num (length xpre + 1), Lit '' is not a dictionary'']])
          (dump_children (Suc (length xpre)) xpost)) \<and>
   (as_dict g = None \<longrightarrow>
    py_iter (get_or d ''IORegistryEntryChildren'' (PList [])) = Inr (cpre @ PDict c # cpost) \<longrightarrow>
    dump_children 0 cpre = (out, Inr ()) \<longrightarrow>
    py_iter (get_or c ''IORegistryEntryChildren'' (PList [])) = Inr (gpre @ g # gpost) \<longrightarrow>
      extract_usb_info (PList [PDict d]) None =
        emit ([[Lit ''Found '', num 1, Lit '' USB interfaces''],
               [Lit (newline # ''--- USB Interface #''), num 1, Lit '' ---'']]
              @ interface_fields d
              @ [[Lit (newline # ''  Children (''), num (length (cpre @ PDict c # cpost)),
                  Lit ''):'']]
              @ out
              @ [[Lit ''  - Child #'', num (length cpre + 1), Lit '': '',
                  Fmt (get_or c ''IORegistryEntryName'' (PStr ''Unknown'')),
                  Lit '' (Class: '', Fmt (get_or c ''IOClass'' (PStr ''Unknown'')), Lit '')''],
                 [Lit ''    Grandchildren ('', num (length (gpre @ g # gpost)), Lit ''):'']]
              @ dump_grandchildren 0 gpre
              @ dump_grandchildren (Suc (length gpre)) gpost)
          (dump_children (Suc (length cpre)) cpost))"
proof (intro conjI impI)
  assume x: "as_dict x = None"
    and iter: "py_iter (get_or d ''IORegistryEntryChildren'' (PList [])) = Inr (xpre @ x # xpost)"
    and pre: "dump_children 0 xpre = (xout, Inr ())"
  have "dump_children 0 (xpre @ x # xpost) =
      emit xout (dump_children (length xpre) (x # xpost))"
    using pre by (simp add: dump_children_append)
  also have "dump_children (length xpre) (x # xpost) =
      emit [[Lit ''  Child #'', num (length xpre + 1), Lit '' is not a dictionary'']]
        (dump_children (Suc (length xpre)) xpost)"
    using x by simp
  finally have "interface_children d =
      emit ([[Lit (newline # ''  Children (''), num (length (xpre @ x # xpost)), Lit ''):'']]
            @ xout
            @ [[Lit ''  Child #'', num (length xpre + 1), Lit '' is not a dictionary'']])
        (dump_children (Suc (length xpre)) xpost)"
    using interface_children_iter [OF iter] by (simp add: emit_emit)
  then show "extract_usb_info (PList [PDict d]) None =
        emit ([[Lit ''Found '', num 1, Lit '' USB interfaces''],
               [Lit (newline # ''--- USB Interface #''), num 1, Lit '' ---'']]
              @ interface_fields d
              @ [[Lit (newline # ''  Children (''), num (length (xpre @ x # xpost)), Lit ''):'']]
              @ xout
              @ [[Lit ''  Child #'', num (length xpre + 1), Lit '' is not a dictionary'']])
          (dump_children (Suc (length xpre)) xpost)"
    by (simp only: dump_single_interface emit_emit append_assoc)
next
  assume g: "as_dict g = None"
    and iter: "py_iter (get_or d ''IORegistryEntryChildren'' (PList [])) = Inr (cpre @ PDict c # cpost)"
    and pre: "dump_children 0 cpre = (out, Inr ())"
    and giter: "py_iter (get_or c ''IORegistryEntryChildren'' (PList [])) = Inr (gpre @ g # gpost)"
  have gs: "dump_grandchildren 0 (gpre @ g # gpost) =
      dump_grandchildren 0 gpre @ dump_grandchildren (Suc (length gpre)) gpost"
    using g by (simp add: dump_grandchildren_append)
  have "dump_children 0 (cpre @ PDict c # cpost) =
      emit out (dump_children (length cpre) (PDict c # cpost))"
    using pre by (simp add: dump_children_append)
  also have "dump_children (length cpre) (PDict c # cpost) =
      emit ([[Lit ''  - Child #'', num (length cpre + 1), Lit '': '',
              Fmt (get_or c ''IORegistryEntryName'' (PStr ''Unknown'')),
              Lit '' (Class: '', Fmt (get_or c ''IOClass'' (PStr ''Unknown'')), Lit '')''],
             [Lit ''    Grandchildren ('', num (length (gpre @ g # gpost)), Lit ''):'']]
            @ dump_grandchildren 0 gpre @ dump_grandchildren (Suc (length gpre)) gpost)
        (dump_children (Suc (length cpre)) cpost)"
    using dump_children_dict [OF giter, of "length cpre" cpost] gs by simp
  finally have "interface_children d =
      emit ([[Lit (newline # ''  Children (''), num (length (cpre @ PDict c # cpost)), Lit ''):'']]
            @ out
            @ [[Lit ''  - Child #'', num (length cpre + 1), Lit '': '',
                Fmt (get_or c ''IORegistryEntryName'' (PStr ''Unknown'')),
                Lit '' (Class: '', Fmt (get_or c ''IOClass'' (PStr ''Unknown'')), Lit '')''],
               [Lit ''    Grandchildren ('', num (length (gpre @ g # gpost)), Lit ''):'']]
            @ dump_grandchildren 0 gpre
            @ dump_grandchildren (Suc (length gpre)) gpost)
        (dump_children (Suc (length cpre)) cpost)"
    using interface_children_iter [OF iter] by (simp add: emit_emit)
  then show "extract_usb_info (PList [PDict d]) None =
        emit ([[Lit ''Found '', num 1, Lit '' USB interfaces''],
               [Lit (newline # ''--- USB Interface #''), num 1, Lit '' ---'']]
              @ interface_fields d
              @ [[Lit (newline # ''  Children (''), num (length (cpre @ PDict c # cpost)),
                  Lit ''):'']]
              @ out
              @ [[Lit ''  - Child #'', num (length cpre + 1), Lit '': '',
                  Fmt (get_or c ''IORegistryEntryName'' (PStr ''Unknown'')),
                  Lit '' (Class: '', Fmt (get_or c ''IOClass'' (PStr ''Unknown'')), Lit '')''],
                 [Lit ''    Grandchildren ('', num (length (gpre @ g # gpost)), Lit ''):'']]
              @ dump_grandchildren 0 gpre
              @ dump_grandchildren (Suc (length gpre)) gpost)
          (dump_children (Suc (length cpre)) cpost)"
    by (simp only: dump_single_interface emit_emit append_assoc)
qed

theorem nested_not_a_dictionary_witness:
  "as_dict (PInt 3) = None \<and>
   as_dict (PStr ''x'') = None \<and>
   dump_children 0 [PInt 3] =
     ([[Lit ''  Child #'', Fmt (PInt 1), Lit '' is not a dictionary'']], Inr ()) \<and>
   extract_usb_info
     (PList [PDict [(''IORegistryEntryChildren'',
                       PList [PInt 3,
                              PDict [(''IORegistryEntryChildren'',
                                        PList [PStr ''x'',
                                               PDict [(''IOTTYDevice'', PStr ''/dev/a'')]])]])]])
     None =
     ([[Lit ''Found '', Fmt (PInt 1), Lit '' USB interfaces''],
       [Lit (CHR 0x0A # ''--- USB Interface #''), Fmt (PInt 1), Lit '' ---''],
       [Lit ''Name: '', Fmt (PStr ''Unknown'')],
       [Lit ''Class: '', Fmt (PStr ''Unknown'')],
       [Lit ''SubClass: '', Fmt (PStr ''Unknown'')],
       [Lit ''Protocol: '', Fmt (PStr ''Unknown'')],
       [Lit ''Vendor ID: '', Fmt (PStr ''Unknown'')],
       [Lit ''Product ID: '', Fmt (PStr ''Unknown'')],
       [Lit ''Location ID: '', Fmt (PStr ''Unknown'')],
       [Lit (CHR 0x0A # ''  Children (''), Fmt (PInt 2), Lit ''):''],
       [Lit ''  Child #'', Fmt (PInt 1), Lit '' is not a dictionary''],
       [Lit ''  - Child #'', Fmt (PInt 2), Lit '': '', Fmt (PStr ''Unknown''),
        Lit '' (Class: '', Fmt (PStr ''Unknown''), Lit '')''],
       [Lit ''    Grandchildren ('', Fmt (PInt 2), Lit ''):''],
       [Lit ''    - #'', Fmt (PInt 2), Lit '': '', Fmt (PStr ''Unknown''),
        Lit '' (TTY: '', Fmt (PStr ''/dev/a''), Lit '')'']],
      Inr ())"
  using nested_not_a_dictionary
    [where d = "[(''IORegistryEntryChildren'',
                    PList [PInt 3,
                           PDict [(''IORegistryEntryChildren'',
                                     PList [PStr ''x'',
                                            PDict [(''IOTTYDevice'', PStr ''/dev/a'')]])]])]"
       and x = "PInt 3" and xpre = "[]" and xout = "[]"
       and xpost = "[PDict [(''IORegistryEntryChildren'',
                               PList [PStr ''x'',
                                      PDict [(''IOTTYDevice'', PStr ''/dev/a'')]])]]"
       and g = "PStr ''x''" and cpre = "[PInt 3]"
       and c = "[(''IORegistryEntryChildren'',
                    PList [PStr ''x'', PDict [(''IOTTYDevice'', PStr ''/dev/a'')]])]"
       and cpost = "[]"
       and out = "[[Lit ''  Child #'', Fmt (PInt 1), Lit '' is not a dictionary'']]"
       and gpre = "[]"
       and gpost = "[PDict [(''IOTTYDevice'', PStr ''/dev/a'')]]"]
  by (simp add: emit_def interface_fields_def get_or_def num_def newline_def)

text \<open>
  C5, as the code has it. The dump of a list holding one dictionary prints the fields of
  that dictionary in every case, an exception in the children after them or not. A field
  read with a default (name, class, subclass, protocol, vendor ID, product ID, location
  ID) is printed as \<^verbatim>\<open>Unknown\<close> when its key is missing. A field tested for presence
  (product, vendor, serial) has no line at all when its key is missing.
\<close>

theorem missing_fields:
  "fst (extract_usb_info (PList [PDict d]) None) =
     [[Lit ''Found '', num 1, Lit '' USB interfaces''],
      [Lit (newline # ''--- USB Interface #''), num 1, Lit '' ---'']]
     @ interface_fields d @ fst (interface_children d) \<and>
   (\<forall>(k, label)\<in>set defaulted_fields.
      map_of d k = None \<longrightarrow> [Lit label, Fmt (PStr ''Unknown'')] \<in> set (interface_fields d)) \<and>
   (\<forall>(k, label)\<in>set optional_fields.
      map_of d k = None \<longrightarrow> (\<forall>l\<in>set (interface_fields d). hd l \<noteq> Lit label))"
proof (intro conjI)
  show "fst (extract_usb_info (PList [PDict d]) None) =
     [[Lit ''Found '', num 1, Lit '' USB interfaces''],
      [Lit (newline # ''--- USB Interface #''), num 1, Lit '' ---'']]
     @ interface_fields d @ fst (interface_children d)"
    by (cases "interface_children d") (simp add: emit_def split: sum.split)
  show "\<forall>(k, label)\<in>set defaulted_fields.
      map_of d k = None \<longrightarrow> [Lit label, Fmt (PStr ''Unknown'')] \<in> set (interface_fields d)"
    by (simp add: defaulted_fields_def interface_fields_def get_or_def)
  show "\<forall>(k, label)\<in>set optional_fields.
      map_of d k = None \<longrightarrow> (\<forall>l\<in>set (interface_fields d). hd l \<noteq> Lit label)"
    by (auto simp: optional_fields_def interface_fields_def split: option.splits)
qed

theorem missing_fields_witness:
  "map_of [(''bInterfaceClass'', PInt 10), (''USB Vendor Name'', PStr ''ST'')]
     ''IORegistryEntryName'' = None \<and>
   map_of [(''bInterfaceClass'', PInt 10), (''USB Vendor Name'', PStr ''ST'')]
     ''USB Product Name'' = None \<and>
   fst (extract_usb_info
          (PList [PDict [(''bInterfaceClass'', PInt 10), (''USB Vendor Name'', PStr ''ST'')]])
          None) =
     [[Lit ''Found '', Fmt (PInt 1), Lit '' USB interfaces''],
      [Lit (CHR 0x0A # ''--- USB Interface #''), Fmt (PInt 1), Lit '' ---''],
      [Lit ''Name: '', Fmt (PStr ''Unknown'')],
      [Lit ''Class: '', Fmt (PInt 10)],
      [Lit ''SubClass: '', Fmt (PStr ''Unknown'')],
      [Lit ''Protocol: '', Fmt (PStr ''Unknown'')],
      [Lit ''Vendor: '', Fmt (PStr ''ST'')],
      [Lit ''Vendor ID: '', Fmt (PStr ''Unknown'')],
      [Lit ''Product ID: '', Fmt (PStr ''Unknown'')],
      [Lit ''Location ID: '', Fmt (PStr ''Unknown'')]]"
  using missing_fields
    [of "[(''bInterfaceClass'', PInt 10), (''USB Vendor Name'', PStr ''ST'')]"]
  by (simp add: interface_fields_def interface_children_def get_or_def num_def newline_def)

text \<open>
  C5 as it is stated fails for the product, the vendor and the serial number: the dump
  of an empty dictionary has no line for them, where the claim expects
  \<^verbatim>\<open>Unknown\<close>.
\<close>

theorem missing_fields_counterexample:
  "map_of ([] :: (string \<times> plval) list) ''USB Product Name'' = None \<and>
   extract_usb_info (PList [PDict []]) None =
     ([[Lit ''Found '', Fmt (PInt 1), Lit '' USB interfaces''],
       [Lit (CHR 0x0A # ''--- USB Interface #''), Fmt (PInt 1), Lit '' ---''],
       [Lit ''Name: '', Fmt (PStr ''Unknown'')],
       [Lit ''Class: '', Fmt (PStr ''Unknown'')],
       [Lit ''SubClass: '', Fmt (PStr ''Unknown'')],
       [Lit ''Protocol: '', Fmt (PStr ''Unknown'')],
       [Lit ''Vendor ID: '', Fmt (PStr ''Unknown'')],
       [Lit ''Product ID: '', Fmt (PStr ''Unknown'')],
       [Lit ''Location ID: '', Fmt (PStr ''Unknown'')]],
      Inr ()) \<and>
   [Lit ''Product: '', Fmt (PStr ''Unknown'')]
     \<notin> set (fst (extract_usb_info (PList [PDict []]) None)) \<and>
   [Lit ''Vendor: '', Fmt (PStr ''Unknown'')]
     \<notin> set (fst (extract_usb_info (PList [PDict []]) None)) \<and>
   [Lit ''Serial: '', Fmt (PStr ''Unknown'')]
     \<notin> set (fst (extract_usb_info (PList [PDict []]) None))"
  by (simp add: emit_def interface_fields_def interface_children_def get_or_def num_def
      newline_def)

section \<open>Properties of the command line\<close>

text \<open>
  C7. Once data was loaded, \<^verbatim>\<open>main\<close> runs the full dump whenever \<^verbatim>\<open>--list\<close> is given
  or no name is, and with \<^verbatim>\<open>--list\<close> the name has no effect on what the program does;
  it runs the lookup of the name only when \<^verbatim>\<open>--list\<close> is absent and a name is given.
\<close>

theorem list_flag_wins:
  assumes "truthy (snd (acquire g l a))"
  shows "(list_flag a \<or> \<not> named a \<longrightarrow>
            main g l a = emit (fst (acquire g l a)) (extract_usb_info (snd (acquire g l a)) None)) \<and>
         (list_flag a \<longrightarrow> main g l (a\<lparr>interface_name := m\<rparr>) = main g l a) \<and>
         (\<not> list_flag a \<and> named a \<longrightarrow>
            main g l a =
              emit (fst (acquire g l a))
                (extract_usb_info (snd (acquire g l a)) (interface_name a)))"
  using assms by (simp add: main_def acquire_def Let_def)

theorem list_flag_wins_witness:
  "truthy (snd (acquire ([], PList [PInt 5]) (\<lambda>f. ([], PList []))
                  \<lparr>interface_name = Some ''ACM0'', list_flag = True, debug = None\<rparr>)) \<and>
   main ([], PList [PInt 5]) (\<lambda>f. ([], PList []))
     \<lparr>interface_name = Some ''ACM0'', list_flag = True, debug = None\<rparr> =
     ([[Lit ''Getting data from ioreg command''],
       [Lit ''Found '', Fmt (PInt 1), Lit '' USB interfaces''],
       [Lit (CHR 0x0A # ''Interface #''), Fmt (PInt 1),
        Lit '' is not a dictionary, it's a '', Lit ''<class 'int'>'']],
      Inr ()) \<and>
   main ([], PList [PInt 5]) (\<lambda>f. ([], PList []))
     \<lparr>interface_name = Some ''ACM0'', list_flag = False, debug = None\<rparr> =
     ([[Lit ''Getting data from ioreg command''],
       [Lit ''No TTY device found for interface: '', Fmt (PStr ''ACM0'')]],
      Inr ())"
  using list_flag_wins
    [where g = "([], PList [PInt 5])" and l = "\<lambda>f. ([], PList [])"
       and a = "\<lparr>interface_name = Some ''ACM0'', list_flag = True, debug = None\<rparr>"
       and m = None]
  by (simp add: main_def acquire_def named_def emit_def not_a_dictionary_def num_def
      newline_def)

end
